theory Spec2Isabelle
  imports Main "HOL-Library.AList"
begin

section \<open>Values shared by the models\<close>

text \<open>
  A calendar date (\<^verbatim>\<open>datetime.date\<close>). The program only ever compares two dates for
  equality, which Python decides on the triple (year, month, day).
\<close>

datatype date = Date (year: int) (month: int) (day: int)

text \<open>
  The five license categories of \<^verbatim>\<open>app/models/license_type.py\<close>. The enumeration is a
  \<^verbatim>\<open>str\<close> enumeration: each member carries the one-letter string \<open>license_value\<close>.
\<close>

datatype LicenseType = LicenseType_A | LicenseType_B | LicenseType_C | LicenseType_D | LicenseType_E

fun license_value :: "LicenseType \<Rightarrow> string" where
  "license_value LicenseType_A = ''A''"
| "license_value LicenseType_B = ''B''"
| "license_value LicenseType_C = ''C''"
| "license_value LicenseType_D = ''D''"
| "license_value LicenseType_E = ''E''"

text \<open>
  The messages of the exceptions are f-strings. A message is kept as the sequence of its
  pieces: the literal text and the interpolated values, in the order of the f-string.
\<close>

datatype piece = Text string | Number int | Day date

type_synonym message = "piece list"

text \<open>
  The exceptions of \<^verbatim>\<open>app/exceptions/__init__.py\<close> (status 404, 422 and 409), and
  Python's own \<^verbatim>\<open>KeyError\<close>, which a subscript on a dictionary raises for a missing
  key.
\<close>

datatype exception =
    ResourceNotFoundException string int
  | ValidationException message
  | ConflictException message
  | KeyError string

section \<open>The license hierarchy\<close>

definition get_license_hierarchy :: "(string \<times> int) list" where
  "get_license_hierarchy =
     [(license_value LicenseType_A, 1),
      (license_value LicenseType_B, 2),
      (license_value LicenseType_C, 3),
      (license_value LicenseType_D, 4),
      (license_value LicenseType_E, 5)]"

text \<open>The subscript \<^verbatim>\<open>hierarchy[key]\<close>: the level, or \<^verbatim>\<open>KeyError\<close>.\<close>

definition hierarchy_getitem :: "(string \<times> int) list \<Rightarrow> string \<Rightarrow> exception + int" where
  "hierarchy_getitem hierarchy key =
     (case map_of hierarchy key of
        None \<Rightarrow> Inl (KeyError key)
      | Some level \<Rightarrow> Inr level)"

definition can_operate :: "LicenseType \<Rightarrow> LicenseType \<Rightarrow> exception + bool" where
  "can_operate self required_license =
     (let hierarchy = get_license_hierarchy in
      case hierarchy_getitem hierarchy (license_value self) of
        Inl e \<Rightarrow> Inl e
      | Inr held \<Rightarrow>
          (case hierarchy_getitem hierarchy (license_value required_license) of
             Inl e \<Rightarrow> Inl e
           | Inr needed \<Rightarrow> Inr (held \<ge> needed)))"

definition get_compatible_licenses :: "LicenseType \<Rightarrow> exception + string set" where
  "get_compatible_licenses self =
     (let hierarchy = get_license_hierarchy in
      case hierarchy_getitem hierarchy (license_value self) of
        Inl e \<Rightarrow> Inl e
      | Inr current_level \<Rightarrow>
          Inr (set (map fst (filter (\<lambda>(license_type, level). level \<le> current_level) hierarchy))))"

text \<open>
  The rank of the specification: the fixed total order A=1, B=2, C=3, D=4, E=5. This
  definition follows the specification's words; \<open>get_license_hierarchy\<close> above follows the
  code.
\<close>

fun spec_rank :: "LicenseType \<Rightarrow> int" where
  "spec_rank LicenseType_A = 1"
| "spec_rank LicenseType_B = 2"
| "spec_rank LicenseType_C = 3"
| "spec_rank LicenseType_D = 4"
| "spec_rank LicenseType_E = 5"

section \<open>The entities\<close>

text \<open>
  The three models of \<^verbatim>\<open>app/models\<close>. In each, the attribute \<^verbatim>\<open>id\<close> is
  \<^verbatim>\<open>Optional[int]\<close> with default \<^verbatim>\<open>None\<close>; it is written \<open>drv_id\<close>, \<open>trk_id\<close> and
  \<open>asg_id\<close> here, one name per class. Every route and every test hands a service an
  entity it has just built, so an entity is passed by value: storing it stores this value
  with its \<^verbatim>\<open>id\<close> set. A caller that hands one and the same object to two calls, or
  that writes to an object after storing it, is outside this model.
\<close>

record driver =
  drv_id :: "int option"
  name :: string
  license_type :: LicenseType

record truck =
  trk_id :: "int option"
  plate :: string
  minimum_license_type :: LicenseType

record assignment =
  asg_id :: "int option"
  driver_id :: int
  truck_id :: int
  assignment_date :: date

section \<open>The repositories\<close>

text \<open>
  A repository holds a dictionary from ids to entities and the next id. Python's
  dictionaries keep insertion order, and \<open>find_by_driver_and_date\<close> returns the first match
  in that order, so the dictionary is an association list: \<open>AList.update\<close> replaces the
  value of a present key in place and appends an absent key at the end, as
  \<^verbatim>\<open>d[k] = v\<close> does, and \<open>AList.delete\<close> is \<^verbatim>\<open>del d[k]\<close>. The field \<open>entries\<close>
  is \<^verbatim>\<open>_drivers\<close>, \<^verbatim>\<open>_trucks\<close> or \<^verbatim>\<open>_assignments\<close>.
\<close>

record 'a repository =
  entries :: "(int \<times> 'a) list"
  next_id :: int

subsection \<open>DriverRepository\<close>

definition DriverRepository_init :: "driver repository" where
  "DriverRepository_init = \<lparr>entries = [], next_id = 1\<rparr>"

definition DriverRepository_create ::
  "driver repository \<Rightarrow> driver \<Rightarrow> driver repository \<times> driver" where
  "DriverRepository_create self d =
     (let d' = d\<lparr>drv_id := Some (next_id self)\<rparr>;
          self' = self\<lparr>entries := AList.update (next_id self) d' (entries self)\<rparr>
      in (self'\<lparr>next_id := next_id self' + 1\<rparr>, d'))"

definition DriverRepository_get_by_id :: "driver repository \<Rightarrow> int \<Rightarrow> driver option" where
  "DriverRepository_get_by_id self k = map_of (entries self) k"

definition DriverRepository_get_all :: "driver repository \<Rightarrow> driver list" where
  "DriverRepository_get_all self = map snd (entries self)"

definition DriverRepository_update ::
  "driver repository \<Rightarrow> int \<Rightarrow> driver \<Rightarrow> driver repository \<times> driver option" where
  "DriverRepository_update self k d =
     (if k \<notin> set (map fst (entries self)) then (self, None)
      else let d' = d\<lparr>drv_id := Some k\<rparr>
           in (self\<lparr>entries := AList.update k d' (entries self)\<rparr>, Some d'))"

definition DriverRepository_delete :: "driver repository \<Rightarrow> int \<Rightarrow> driver repository \<times> bool" where
  "DriverRepository_delete self k =
     (if k \<in> set (map fst (entries self))
      then (self\<lparr>entries := AList.delete k (entries self)\<rparr>, True)
      else (self, False))"

definition DriverRepository_exists :: "driver repository \<Rightarrow> int \<Rightarrow> bool" where
  "DriverRepository_exists self k \<longleftrightarrow> k \<in> set (map fst (entries self))"

subsection \<open>TruckRepository\<close>

definition TruckRepository_init :: "truck repository" where
  "TruckRepository_init = \<lparr>entries = [], next_id = 1\<rparr>"

definition TruckRepository_create ::
  "truck repository \<Rightarrow> truck \<Rightarrow> truck repository \<times> truck" where
  "TruckRepository_create self t =
     (let t' = t\<lparr>trk_id := Some (next_id self)\<rparr>;
          self' = self\<lparr>entries := AList.update (next_id self) t' (entries self)\<rparr>
      in (self'\<lparr>next_id := next_id self' + 1\<rparr>, t'))"

definition TruckRepository_get_by_id :: "truck repository \<Rightarrow> int \<Rightarrow> truck option" where
  "TruckRepository_get_by_id self k = map_of (entries self) k"

definition TruckRepository_get_all :: "truck repository \<Rightarrow> truck list" where
  "TruckRepository_get_all self = map snd (entries self)"

definition TruckRepository_update ::
  "truck repository \<Rightarrow> int \<Rightarrow> truck \<Rightarrow> truck repository \<times> truck option" where
  "TruckRepository_update self k t =
     (if k \<notin> set (map fst (entries self)) then (self, None)
      else let t' = t\<lparr>trk_id := Some k\<rparr>
           in (self\<lparr>entries := AList.update k t' (entries self)\<rparr>, Some t'))"

definition TruckRepository_delete :: "truck repository \<Rightarrow> int \<Rightarrow> truck repository \<times> bool" where
  "TruckRepository_delete self k =
     (if k \<in> set (map fst (entries self))
      then (self\<lparr>entries := AList.delete k (entries self)\<rparr>, True)
      else (self, False))"

definition TruckRepository_exists :: "truck repository \<Rightarrow> int \<Rightarrow> bool" where
  "TruckRepository_exists self k \<longleftrightarrow> k \<in> set (map fst (entries self))"

subsection \<open>AssignmentRepository\<close>

definition AssignmentRepository_init :: "assignment repository" where
  "AssignmentRepository_init = \<lparr>entries = [], next_id = 1\<rparr>"

definition AssignmentRepository_create ::
  "assignment repository \<Rightarrow> assignment \<Rightarrow> assignment repository \<times> assignment" where
  "AssignmentRepository_create self a =
     (let a' = a\<lparr>asg_id := Some (next_id self)\<rparr>;
          self' = self\<lparr>entries := AList.update (next_id self) a' (entries self)\<rparr>
      in (self'\<lparr>next_id := next_id self' + 1\<rparr>, a'))"

definition AssignmentRepository_get_by_id ::
  "assignment repository \<Rightarrow> int \<Rightarrow> assignment option" where
  "AssignmentRepository_get_by_id self k = map_of (entries self) k"

definition AssignmentRepository_get_all :: "assignment repository \<Rightarrow> assignment list" where
  "AssignmentRepository_get_all self = map snd (entries self)"

definition AssignmentRepository_update ::
  "assignment repository \<Rightarrow> int \<Rightarrow> assignment \<Rightarrow> assignment repository \<times> assignment option"
  where
  "AssignmentRepository_update self k a =
     (if k \<notin> set (map fst (entries self)) then (self, None)
      else let a' = a\<lparr>asg_id := Some k\<rparr>
           in (self\<lparr>entries := AList.update k a' (entries self)\<rparr>, Some a'))"

definition AssignmentRepository_delete ::
  "assignment repository \<Rightarrow> int \<Rightarrow> assignment repository \<times> bool" where
  "AssignmentRepository_delete self k =
     (if k \<in> set (map fst (entries self))
      then (self\<lparr>entries := AList.delete k (entries self)\<rparr>, True)
      else (self, False))"

text \<open>The loops over \<^verbatim>\<open>_assignments.values()\<close> return at the first match.\<close>

definition find_by_driver_and_date ::
  "assignment repository \<Rightarrow> int \<Rightarrow> date \<Rightarrow> assignment option" where
  "find_by_driver_and_date self did dt =
     find (\<lambda>a. driver_id a = did \<and> assignment_date a = dt) (map snd (entries self))"

definition find_by_truck_and_date ::
  "assignment repository \<Rightarrow> int \<Rightarrow> date \<Rightarrow> assignment option" where
  "find_by_truck_and_date self tid dt =
     find (\<lambda>a. truck_id a = tid \<and> assignment_date a = dt) (map snd (entries self))"

definition find_by_date :: "assignment repository \<Rightarrow> date \<Rightarrow> assignment list" where
  "find_by_date self dt = filter (\<lambda>a. assignment_date a = dt) (map snd (entries self))"

section \<open>The services\<close>

text \<open>
  \<^verbatim>\<open>app/dependencies.py\<close> builds one repository of each kind and hands them to the
  services. The state of the program is these three repositories. A service method takes
  the state and returns the state it leaves behind together with its outcome: \<open>Inl\<close> the
  exception raised, \<open>Inr\<close> the value returned.
\<close>

record system =
  driver_repo :: "driver repository"
  truck_repo :: "truck repository"
  assignment_repo :: "assignment repository"

definition initial_system :: system where
  "initial_system =
     \<lparr>driver_repo = DriverRepository_init,
      truck_repo = TruckRepository_init,
      assignment_repo = AssignmentRepository_init\<rparr>"

subsection \<open>DriverService\<close>

definition create_driver :: "system \<Rightarrow> driver \<Rightarrow> system \<times> (exception + driver)" where
  "create_driver s d =
     (let (repo, created) = DriverRepository_create (driver_repo s) d
      in (s\<lparr>driver_repo := repo\<rparr>, Inr created))"

definition get_driver :: "system \<Rightarrow> int \<Rightarrow> system \<times> (exception + driver)" where
  "get_driver s k =
     (case DriverRepository_get_by_id (driver_repo s) k of
        None \<Rightarrow> (s, Inl (ResourceNotFoundException ''Driver'' k))
      | Some d \<Rightarrow> (s, Inr d))"

definition update_driver :: "system \<Rightarrow> int \<Rightarrow> driver \<Rightarrow> system \<times> (exception + driver)" where
  "update_driver s k d =
     (let (repo, updated) = DriverRepository_update (driver_repo s) k d
      in case updated of
           None \<Rightarrow> (s\<lparr>driver_repo := repo\<rparr>, Inl (ResourceNotFoundException ''Driver'' k))
         | Some d' \<Rightarrow> (s\<lparr>driver_repo := repo\<rparr>, Inr d'))"

definition delete_driver :: "system \<Rightarrow> int \<Rightarrow> system \<times> (exception + unit)" where
  "delete_driver s k =
     (let (repo, deleted) = DriverRepository_delete (driver_repo s) k
      in if \<not> deleted
         then (s\<lparr>driver_repo := repo\<rparr>, Inl (ResourceNotFoundException ''Driver'' k))
         else (s\<lparr>driver_repo := repo\<rparr>, Inr ()))"

subsection \<open>TruckService\<close>

definition create_truck :: "system \<Rightarrow> truck \<Rightarrow> system \<times> (exception + truck)" where
  "create_truck s t =
     (let (repo, created) = TruckRepository_create (truck_repo s) t
      in (s\<lparr>truck_repo := repo\<rparr>, Inr created))"

definition get_truck :: "system \<Rightarrow> int \<Rightarrow> system \<times> (exception + truck)" where
  "get_truck s k =
     (case TruckRepository_get_by_id (truck_repo s) k of
        None \<Rightarrow> (s, Inl (ResourceNotFoundException ''Truck'' k))
      | Some t \<Rightarrow> (s, Inr t))"

definition update_truck :: "system \<Rightarrow> int \<Rightarrow> truck \<Rightarrow> system \<times> (exception + truck)" where
  "update_truck s k t =
     (let (repo, updated) = TruckRepository_update (truck_repo s) k t
      in case updated of
           None \<Rightarrow> (s\<lparr>truck_repo := repo\<rparr>, Inl (ResourceNotFoundException ''Truck'' k))
         | Some t' \<Rightarrow> (s\<lparr>truck_repo := repo\<rparr>, Inr t'))"

definition delete_truck :: "system \<Rightarrow> int \<Rightarrow> system \<times> (exception + unit)" where
  "delete_truck s k =
     (let (repo, deleted) = TruckRepository_delete (truck_repo s) k
      in if \<not> deleted
         then (s\<lparr>truck_repo := repo\<rparr>, Inl (ResourceNotFoundException ''Truck'' k))
         else (s\<lparr>truck_repo := repo\<rparr>, Inr ()))"

subsection \<open>AssignmentService\<close>

definition validate_license_compatibility ::
  "LicenseType \<Rightarrow> LicenseType \<Rightarrow> exception + unit" where
  "validate_license_compatibility driver_license required_license =
     (case can_operate driver_license required_license of
        Inl e \<Rightarrow> Inl e
      | Inr ok \<Rightarrow>
          if \<not> ok
          then Inl (ValidationException
                 [Text ''Driver with license type '', Text (license_value driver_license),
                  Text '' cannot operate a truck requiring license type '',
                  Text (license_value required_license),
                  Text ''. Driver needs at least a '', Text (license_value required_license),
                  Text '' license.''])
          else Inr ())"

text \<open>
  \<open>exclude_assignment_id\<close> is \<open>None\<close> when the caller leaves it out. The test
  \<^verbatim>\<open>existing and existing.id != exclude_assignment_id\<close> holds when an assignment was
  found (a model object is always true) and its \<^verbatim>\<open>id\<close> differs from the excluded one.
\<close>

definition check_driver_availability ::
  "system \<Rightarrow> int \<Rightarrow> date \<Rightarrow> int option \<Rightarrow> exception + unit" where
  "check_driver_availability s did dt exclude_assignment_id =
     (case find_by_driver_and_date (assignment_repo s) did dt of
        None \<Rightarrow> Inr ()
      | Some existing \<Rightarrow>
          if asg_id existing \<noteq> exclude_assignment_id
          then Inl (ConflictException
                 [Text ''Driver '', Number did, Text '' is already assigned to truck '',
                  Number (truck_id existing), Text '' on '', Day dt])
          else Inr ())"

definition check_truck_availability ::
  "system \<Rightarrow> int \<Rightarrow> date \<Rightarrow> int option \<Rightarrow> exception + unit" where
  "check_truck_availability s tid dt exclude_assignment_id =
     (case find_by_truck_and_date (assignment_repo s) tid dt of
        None \<Rightarrow> Inr ()
      | Some existing \<Rightarrow>
          if asg_id existing \<noteq> exclude_assignment_id
          then Inl (ConflictException
                 [Text ''Truck '', Number tid, Text '' is already assigned to driver '',
                  Number (driver_id existing), Text '' on '', Day dt])
          else Inr ())"

definition create_assignment :: "system \<Rightarrow> assignment \<Rightarrow> system \<times> (exception + assignment)" where
  "create_assignment s a =
     (case DriverRepository_get_by_id (driver_repo s) (driver_id a) of
        None \<Rightarrow> (s, Inl (ResourceNotFoundException ''Driver'' (driver_id a)))
      | Some d \<Rightarrow>
     (case TruckRepository_get_by_id (truck_repo s) (truck_id a) of
        None \<Rightarrow> (s, Inl (ResourceNotFoundException ''Truck'' (truck_id a)))
      | Some t \<Rightarrow>
     (case validate_license_compatibility (license_type d) (minimum_license_type t) of
        Inl e \<Rightarrow> (s, Inl e)
      | Inr _ \<Rightarrow>
     (case check_driver_availability s (driver_id a) (assignment_date a) None of
        Inl e \<Rightarrow> (s, Inl e)
      | Inr _ \<Rightarrow>
     (case check_truck_availability s (truck_id a) (assignment_date a) None of
        Inl e \<Rightarrow> (s, Inl e)
      | Inr _ \<Rightarrow>
          (let (repo, created) = AssignmentRepository_create (assignment_repo s) a
           in (s\<lparr>assignment_repo := repo\<rparr>, Inr created)))))))"

definition get_assignment :: "system \<Rightarrow> int \<Rightarrow> system \<times> (exception + assignment)" where
  "get_assignment s k =
     (case AssignmentRepository_get_by_id (assignment_repo s) k of
        None \<Rightarrow> (s, Inl (ResourceNotFoundException ''Assignment'' k))
      | Some a \<Rightarrow> (s, Inr a))"

text \<open>
  \<open>update_assignment\<close> returns what the repository's \<open>update\<close> returns, an optional
  assignment.
\<close>

definition update_assignment ::
  "system \<Rightarrow> int \<Rightarrow> assignment \<Rightarrow> system \<times> (exception + assignment option)" where
  "update_assignment s k a =
     (case AssignmentRepository_get_by_id (assignment_repo s) k of
        None \<Rightarrow> (s, Inl (ResourceNotFoundException ''Assignment'' k))
      | Some existing_assignment \<Rightarrow>
     (case DriverRepository_get_by_id (driver_repo s) (driver_id a) of
        None \<Rightarrow> (s, Inl (ResourceNotFoundException ''Driver'' (driver_id a)))
      | Some d \<Rightarrow>
     (case TruckRepository_get_by_id (truck_repo s) (truck_id a) of
        None \<Rightarrow> (s, Inl (ResourceNotFoundException ''Truck'' (truck_id a)))
      | Some t \<Rightarrow>
     (case validate_license_compatibility (license_type d) (minimum_license_type t) of
        Inl e \<Rightarrow> (s, Inl e)
      | Inr _ \<Rightarrow>
     (case check_driver_availability s (driver_id a) (assignment_date a) (Some k) of
        Inl e \<Rightarrow> (s, Inl e)
      | Inr _ \<Rightarrow>
     (case check_truck_availability s (truck_id a) (assignment_date a) (Some k) of
        Inl e \<Rightarrow> (s, Inl e)
      | Inr _ \<Rightarrow>
          (let (repo, updated) = AssignmentRepository_update (assignment_repo s) k a
           in (s\<lparr>assignment_repo := repo\<rparr>, Inr updated))))))))"

definition delete_assignment :: "system \<Rightarrow> int \<Rightarrow> system \<times> (exception + unit)" where
  "delete_assignment s k =
     (let (repo, deleted) = AssignmentRepository_delete (assignment_repo s) k
      in if \<not> deleted
         then (s\<lparr>assignment_repo := repo\<rparr>, Inl (ResourceNotFoundException ''Assignment'' k))
         else (s\<lparr>assignment_repo := repo\<rparr>, Inr ()))"

section \<open>Reachable states\<close>

text \<open>
  A call of a service method that changes the state. The state of the program after a
  sequence of calls, each on a freshly built entity, is \<open>run\<close> of that sequence; a call that
  raises leaves behind whatever state the method had reached when it raised.
\<close>

datatype operation =
    Create_driver driver | Update_driver int driver | Delete_driver int
  | Create_truck truck | Update_truck int truck | Delete_truck int
  | Create_assignment assignment | Update_assignment int assignment | Delete_assignment int

fun perform :: "system \<Rightarrow> operation \<Rightarrow> system" where
  "perform s (Create_driver d) = fst (create_driver s d)"
| "perform s (Update_driver k d) = fst (update_driver s k d)"
| "perform s (Delete_driver k) = fst (delete_driver s k)"
| "perform s (Create_truck t) = fst (create_truck s t)"
| "perform s (Update_truck k t) = fst (update_truck s k t)"
| "perform s (Delete_truck k) = fst (delete_truck s k)"
| "perform s (Create_assignment a) = fst (create_assignment s a)"
| "perform s (Update_assignment k a) = fst (update_assignment s k a)"
| "perform s (Delete_assignment k) = fst (delete_assignment s k)"

definition run :: "operation list \<Rightarrow> system" where
  "run ops = foldl perform initial_system ops"

section \<open>Invariants of the stores\<close>

text \<open>
  \<open>ids_ok\<close>: the next id is positive, no key is stored twice, and every stored entity
  carries its own key as \<^verbatim>\<open>id\<close>, a positive integer below the next id.
  \<open>no_double_booking\<close>: two stored assignments of the same date that share the driver or
  the truck are the same entry.
\<close>

definition ids_ok :: "('a \<Rightarrow> int option) \<Rightarrow> 'a repository \<Rightarrow> bool" where
  "ids_ok idf r \<longleftrightarrow>
     0 < next_id r \<and> distinct (map fst (entries r)) \<and>
     list_all (\<lambda>(k, v). idf v = Some k \<and> 0 < k \<and> k < next_id r) (entries r)"

definition no_double_booking :: "assignment repository \<Rightarrow> bool" where
  "no_double_booking r \<longleftrightarrow>
     (\<forall>(k1, a1) \<in> set (entries r). \<forall>(k2, a2) \<in> set (entries r).
        assignment_date a1 = assignment_date a2 \<and>
        (driver_id a1 = driver_id a2 \<or> truck_id a1 = truck_id a2) \<longrightarrow> k1 = k2)"

definition sys_ok :: "system \<Rightarrow> bool" where
  "sys_ok s \<longleftrightarrow>
     ids_ok drv_id (driver_repo s) \<and> ids_ok trk_id (truck_repo s) \<and>
     ids_ok asg_id (assignment_repo s) \<and> no_double_booking (assignment_repo s)"

text \<open>Some stored assignment has this driver (this truck) on this date.\<close>

definition driver_booked :: "system \<Rightarrow> int \<Rightarrow> date \<Rightarrow> bool" where
  "driver_booked s did dt \<longleftrightarrow>
     (\<exists>x \<in> set (AssignmentRepository_get_all (assignment_repo s)).
        driver_id x = did \<and> assignment_date x = dt)"

definition truck_booked :: "system \<Rightarrow> int \<Rightarrow> date \<Rightarrow> bool" where
  "truck_booked s tid dt \<longleftrightarrow>
     (\<exists>x \<in> set (AssignmentRepository_get_all (assignment_repo s)).
        truck_id x = tid \<and> assignment_date x = dt)"

section \<open>Runs of one repository\<close>

text \<open>
  A call of a repository method that changes the repository. \<open>DriverRepository_run\<close> and
  its two siblings perform a sequence of such calls; they return the repository left
  behind and the \<^verbatim>\<open>id\<close>s of the entities that the calls of \<^verbatim>\<open>create\<close> returned, in
  order.
\<close>

datatype 'a repo_op = Repo_create 'a | Repo_update int 'a | Repo_delete int

fun is_create :: "'a repo_op \<Rightarrow> bool" where
  "is_create (Repo_create _) = True"
| "is_create _ = False"

fun DriverRepository_run ::
  "driver repository \<Rightarrow> driver repo_op list \<Rightarrow> driver repository \<times> int option list" where
  "DriverRepository_run self [] = (self, [])"
| "DriverRepository_run self (Repo_create d # ops) =
     (let (self', created) = DriverRepository_create self d;
          (final, ids) = DriverRepository_run self' ops
      in (final, drv_id created # ids))"
| "DriverRepository_run self (Repo_update k d # ops) =
     DriverRepository_run (fst (DriverRepository_update self k d)) ops"
| "DriverRepository_run self (Repo_delete k # ops) =
     DriverRepository_run (fst (DriverRepository_delete self k)) ops"

fun TruckRepository_run ::
  "truck repository \<Rightarrow> truck repo_op list \<Rightarrow> truck repository \<times> int option list" where
  "TruckRepository_run self [] = (self, [])"
| "TruckRepository_run self (Repo_create t # ops) =
     (let (self', created) = TruckRepository_create self t;
          (final, ids) = TruckRepository_run self' ops
      in (final, trk_id created # ids))"
| "TruckRepository_run self (Repo_update k t # ops) =
     TruckRepository_run (fst (TruckRepository_update self k t)) ops"
| "TruckRepository_run self (Repo_delete k # ops) =
     TruckRepository_run (fst (TruckRepository_delete self k)) ops"

fun AssignmentRepository_run ::
  "assignment repository \<Rightarrow> assignment repo_op list \<Rightarrow> assignment repository \<times> int option list"
  where
  "AssignmentRepository_run self [] = (self, [])"
| "AssignmentRepository_run self (Repo_create a # ops) =
     (let (self', created) = AssignmentRepository_create self a;
          (final, ids) = AssignmentRepository_run self' ops
      in (final, asg_id created # ids))"
| "AssignmentRepository_run self (Repo_update k a # ops) =
     AssignmentRepository_run (fst (AssignmentRepository_update self k a)) ops"
| "AssignmentRepository_run self (Repo_delete k # ops) =
     AssignmentRepository_run (fst (AssignmentRepository_delete self k)) ops"

section \<open>A sample run\<close>

text \<open>
  The fixtures of \<^verbatim>\<open>tests/test_assignment_service.py\<close>: two drivers (licenses D and B),
  two trucks (requiring C and B), and assignments in November 2025. After \<open>sample_calls\<close>
  the program is in \<open>sample_state\<close>.
\<close>

definition john :: driver where
  "john = \<lparr>drv_id = None, name = ''John Doe'', license_type = LicenseType_D\<rparr>"

definition jane :: driver where
  "jane = \<lparr>drv_id = None, name = ''Jane Smith'', license_type = LicenseType_B\<rparr>"

definition truck_c :: truck where
  "truck_c = \<lparr>trk_id = None, plate = ''ABC-1234'', minimum_license_type = LicenseType_C\<rparr>"

definition truck_b :: truck where
  "truck_b = \<lparr>trk_id = None, plate = ''XYZ-5678'', minimum_license_type = LicenseType_B\<rparr>"

definition booking :: "int \<Rightarrow> int \<Rightarrow> int \<Rightarrow> assignment" where
  "booking did tid dd =
     \<lparr>asg_id = None, driver_id = did, truck_id = tid, assignment_date = Date 2025 11 dd\<rparr>"

definition fleet :: "operation list" where
  "fleet = [Create_driver john, Create_driver jane, Create_truck truck_c, Create_truck truck_b]"

definition sample_calls :: "operation list" where
  "sample_calls = fleet @ [Create_assignment (booking 1 1 10), Create_assignment (booking 2 2 10)]"

definition sample_state :: system where
  "sample_state =
     \<lparr>driver_repo =
        \<lparr>entries = [(1, john\<lparr>drv_id := Some 1\<rparr>), (2, jane\<lparr>drv_id := Some 2\<rparr>)], next_id = 3\<rparr>,
      truck_repo =
        \<lparr>entries = [(1, truck_c\<lparr>trk_id := Some 1\<rparr>), (2, truck_b\<lparr>trk_id := Some 2\<rparr>)],
         next_id = 3\<rparr>,
      assignment_repo =
        \<lparr>entries = [(1, booking 1 1 10\<lparr>asg_id := Some 1\<rparr>), (2, booking 2 2 10\<lparr>asg_id := Some 2\<rparr>)],
         next_id = 3\<rparr>\<rparr>"

section \<open>Properties of the license hierarchy\<close>

lemma hierarchy_getitem_value:
  "hierarchy_getitem get_license_hierarchy (license_value x) = Inr (spec_rank x)"
  by (cases x) (simp_all add: hierarchy_getitem_def get_license_hierarchy_def)

lemma LicenseType_UNIV:
  "(UNIV :: LicenseType set) =
     {LicenseType_A, LicenseType_B, LicenseType_C, LicenseType_D, LicenseType_E}"
proof -
  have "x \<in> {LicenseType_A, LicenseType_B, LicenseType_C, LicenseType_D, LicenseType_E}"
    for x :: LicenseType
    by (cases x) simp_all
  then show ?thesis by blast
qed

lemma spec_rank_below:
  "{c. spec_rank c \<le> spec_rank held} =
     (case held of
        LicenseType_A \<Rightarrow> {LicenseType_A}
      | LicenseType_B \<Rightarrow> {LicenseType_A, LicenseType_B}
      | LicenseType_C \<Rightarrow> {LicenseType_A, LicenseType_B, LicenseType_C}
      | LicenseType_D \<Rightarrow> {LicenseType_A, LicenseType_B, LicenseType_C, LicenseType_D}
      | LicenseType_E \<Rightarrow>
          {LicenseType_A, LicenseType_B, LicenseType_C, LicenseType_D, LicenseType_E})"
proof -
  have "c \<in> {c. spec_rank c \<le> spec_rank held} \<longleftrightarrow>
        c \<in> (case held of
                LicenseType_A \<Rightarrow> {LicenseType_A}
              | LicenseType_B \<Rightarrow> {LicenseType_A, LicenseType_B}
              | LicenseType_C \<Rightarrow> {LicenseType_A, LicenseType_B, LicenseType_C}
              | LicenseType_D \<Rightarrow> {LicenseType_A, LicenseType_B, LicenseType_C, LicenseType_D}
              | LicenseType_E \<Rightarrow>
                  {LicenseType_A, LicenseType_B, LicenseType_C, LicenseType_D, LicenseType_E})"
    for c
    by (cases held; cases c) simp_all
  then show ?thesis by blast
qed

lemma can_operate_by_rank:
  "can_operate x y = Inr (spec_rank x \<ge> spec_rank y)"
  by (simp add: can_operate_def hierarchy_getitem_value)

text \<open>
  Claim C4. For all license categories x and y, \<open>can_operate x y\<close> returns a boolean (it
  never raises), and that boolean is true exactly when the rank of x is at least the rank
  of y, for the ranks A=1, B=2, C=3, D=4, E=5.
\<close>

theorem can_operate_rank:
  "can_operate x y = Inr (spec_rank x \<ge> spec_rank y)"
  by (rule can_operate_by_rank)

text \<open>
  Claim C5. For every license category, \<open>get_compatible_licenses\<close> returns (without
  raising) the letters of exactly the categories whose rank is at most the rank of the held
  one, itself included; for C these are A, B, C, for E all five, for A only A.
\<close>

theorem get_compatible_licenses_rank:
  "get_compatible_licenses held = Inr (license_value ` {c. spec_rank c \<le> spec_rank held})
   \<and> get_compatible_licenses LicenseType_C = Inr {''A'', ''B'', ''C''}
   \<and> get_compatible_licenses LicenseType_E = Inr {''A'', ''B'', ''C'', ''D'', ''E''}
   \<and> get_compatible_licenses LicenseType_A = Inr {''A''}"
proof -
  have general: "get_compatible_licenses h =
      Inr (license_value ` {c. spec_rank c \<le> spec_rank h})" for h
    unfolding spec_rank_below
    by (cases h)
       (auto simp add: get_compatible_licenses_def hierarchy_getitem_def
          get_license_hierarchy_def)
  have "get_compatible_licenses LicenseType_C = Inr {''A'', ''B'', ''C''}"
    unfolding general spec_rank_below by auto
  moreover have "get_compatible_licenses LicenseType_E = Inr {''A'', ''B'', ''C'', ''D'', ''E''}"
    unfolding general spec_rank_below by auto
  moreover have "get_compatible_licenses LicenseType_A = Inr {''A''}"
    unfolding general spec_rank_below by auto
  ultimately show ?thesis using general by blast
qed

section \<open>Properties of the stores\<close>

subsection \<open>Association lists and the id invariant\<close>

lemma update_absent: "k \<notin> fst ` set al \<Longrightarrow> AList.update k v al = al @ [(k, v)]"
  by (induction al) auto

lemma set_delete: "set (AList.delete k al) = {p \<in> set al. fst p \<noteq> k}"
  by (auto simp: AList.delete_eq)

lemma set_update_distinct:
  "distinct (map fst al) \<Longrightarrow> set (AList.update k v al) = insert (k, v) {p \<in> set al. fst p \<noteq> k}"
  by (induction al) (auto simp: rev_image_eqI)

lemma ids_ok_fresh: "ids_ok idf r \<Longrightarrow> next_id r \<notin> fst ` set (entries r)"
  by (auto simp: ids_ok_def list_all_iff)

lemma ids_ok_create:
  assumes "ids_ok idf r" "idf v = Some (next_id r)"
  shows "ids_ok idf (r\<lparr>entries := AList.update (next_id r) v (entries r), next_id := next_id r + 1\<rparr>)"
  using assms ids_ok_fresh[OF assms(1)]
  by (auto simp: ids_ok_def list_all_iff update_absent)

lemma ids_ok_update:
  assumes "ids_ok idf r" "idf v = Some k" "k \<in> fst ` set (entries r)"
  shows "ids_ok idf (r\<lparr>entries := AList.update k v (entries r)\<rparr>)"
  using assms
  by (auto simp: ids_ok_def list_all_iff set_update_distinct distinct_update)

lemma ids_ok_delete:
  assumes "ids_ok idf r"
  shows "ids_ok idf (r\<lparr>entries := AList.delete k (entries r)\<rparr>)"
  using assms
  by (auto simp: ids_ok_def list_all_iff set_delete distinct_delete)

lemma ids_ok_entry: "ids_ok idf r \<Longrightarrow> (k, v) \<in> set (entries r) \<Longrightarrow> idf v = Some k"
  by (auto simp: ids_ok_def list_all_iff)

subsection \<open>The availability checks on a well-formed store\<close>

lemma check_driver_create_iff:
  assumes "ids_ok asg_id (assignment_repo s)"
  shows "check_driver_availability s did dt None = Inr () \<longleftrightarrow>
         (\<forall>(k, a) \<in> set (entries (assignment_repo s)). \<not> (driver_id a = did \<and> assignment_date a = dt))"
proof (cases "find_by_driver_and_date (assignment_repo s) did dt")
  case None
  then have "\<not> (\<exists>x \<in> set (map snd (entries (assignment_repo s))). driver_id x = did \<and> assignment_date x = dt)"
    by (simp add: find_by_driver_and_date_def find_None_iff)
  then have "\<forall>(k', a) \<in> set (entries (assignment_repo s)). \<not> (driver_id a = did \<and> assignment_date a = dt)"
    by force
  moreover have "check_driver_availability s did dt ex = Inr ()" for ex
    using None by (simp add: check_driver_availability_def)
  ultimately show ?thesis by fastforce
next
  case (Some x)
  then have "x \<in> snd ` set (entries (assignment_repo s))" "driver_id x = did" "assignment_date x = dt"
    by (auto simp: find_by_driver_and_date_def find_Some_iff)
  moreover from this obtain k where "(k, x) \<in> set (entries (assignment_repo s))" by auto
  moreover from this have "asg_id x = Some k" using assms ids_ok_entry by fastforce
  ultimately show ?thesis using Some
    by (auto simp: check_driver_availability_def)
qed

lemma check_truck_create_iff:
  assumes "ids_ok asg_id (assignment_repo s)"
  shows "check_truck_availability s tid dt None = Inr () \<longleftrightarrow>
         (\<forall>(k, a) \<in> set (entries (assignment_repo s)). \<not> (truck_id a = tid \<and> assignment_date a = dt))"
proof (cases "find_by_truck_and_date (assignment_repo s) tid dt")
  case None
  then have "\<not> (\<exists>x \<in> set (map snd (entries (assignment_repo s))). truck_id x = tid \<and> assignment_date x = dt)"
    by (simp add: find_by_truck_and_date_def find_None_iff)
  then have "\<forall>(k', a) \<in> set (entries (assignment_repo s)). \<not> (truck_id a = tid \<and> assignment_date a = dt)"
    by force
  moreover have "check_truck_availability s tid dt ex = Inr ()" for ex
    using None by (simp add: check_truck_availability_def)
  ultimately show ?thesis by fastforce
next
  case (Some x)
  then have "x \<in> snd ` set (entries (assignment_repo s))" "truck_id x = tid" "assignment_date x = dt"
    by (auto simp: find_by_truck_and_date_def find_Some_iff)
  moreover from this obtain k where "(k, x) \<in> set (entries (assignment_repo s))" by auto
  moreover from this have "asg_id x = Some k" using assms ids_ok_entry by fastforce
  ultimately show ?thesis using Some
    by (auto simp: check_truck_availability_def)
qed

lemma check_driver_update_iff:
  assumes "ids_ok asg_id (assignment_repo s)" "no_double_booking (assignment_repo s)"
  shows "check_driver_availability s did dt (Some k) = Inr () \<longleftrightarrow>
         (\<forall>(k', a) \<in> set (entries (assignment_repo s)). driver_id a = did \<and> assignment_date a = dt \<longrightarrow> k' = k)"
proof (cases "find_by_driver_and_date (assignment_repo s) did dt")
  case None
  then have "\<not> (\<exists>x \<in> set (map snd (entries (assignment_repo s))). driver_id x = did \<and> assignment_date x = dt)"
    by (simp add: find_by_driver_and_date_def find_None_iff)
  then have "\<forall>(k', a) \<in> set (entries (assignment_repo s)). \<not> (driver_id a = did \<and> assignment_date a = dt)"
    by force
  moreover have "check_driver_availability s did dt ex = Inr ()" for ex
    using None by (simp add: check_driver_availability_def)
  ultimately show ?thesis by fastforce
next
  case (Some x)
  then have x: "x \<in> snd ` set (entries (assignment_repo s))" "driver_id x = did" "assignment_date x = dt"
    by (auto simp: find_by_driver_and_date_def find_Some_iff)
  then obtain k0 where k0: "(k0, x) \<in> set (entries (assignment_repo s))" by auto
  then have idx: "asg_id x = Some k0" using assms ids_ok_entry by fastforce
  have only: "k' = k0" if "(k', a) \<in> set (entries (assignment_repo s))" "driver_id a = did" "assignment_date a = dt" for k' a
    using assms(2) that k0 x unfolding no_double_booking_def by fastforce
  show ?thesis
  proof
    assume "check_driver_availability s did dt (Some k) = Inr ()"
    then have "k0 = k" using Some idx by (auto simp: check_driver_availability_def split: if_splits)
    then show "\<forall>(k', a) \<in> set (entries (assignment_repo s)). driver_id a = did \<and> assignment_date a = dt \<longrightarrow> k' = k"
      using only by auto
  next
    assume "\<forall>(k', a) \<in> set (entries (assignment_repo s)). driver_id a = did \<and> assignment_date a = dt \<longrightarrow> k' = k"
    then have "k0 = k" using k0 x by auto
    then show "check_driver_availability s did dt (Some k) = Inr ()"
      using Some idx by (auto simp: check_driver_availability_def)
  qed
qed

lemma check_truck_update_iff:
  assumes "ids_ok asg_id (assignment_repo s)" "no_double_booking (assignment_repo s)"
  shows "check_truck_availability s tid dt (Some k) = Inr () \<longleftrightarrow>
         (\<forall>(k', a) \<in> set (entries (assignment_repo s)). truck_id a = tid \<and> assignment_date a = dt \<longrightarrow> k' = k)"
proof (cases "find_by_truck_and_date (assignment_repo s) tid dt")
  case None
  then have "\<not> (\<exists>x \<in> set (map snd (entries (assignment_repo s))). truck_id x = tid \<and> assignment_date x = dt)"
    by (simp add: find_by_truck_and_date_def find_None_iff)
  then have "\<forall>(k', a) \<in> set (entries (assignment_repo s)). \<not> (truck_id a = tid \<and> assignment_date a = dt)"
    by force
  moreover have "check_truck_availability s tid dt ex = Inr ()" for ex
    using None by (simp add: check_truck_availability_def)
  ultimately show ?thesis by fastforce
next
  case (Some x)
  then have x: "x \<in> snd ` set (entries (assignment_repo s))" "truck_id x = tid" "assignment_date x = dt"
    by (auto simp: find_by_truck_and_date_def find_Some_iff)
  then obtain k0 where k0: "(k0, x) \<in> set (entries (assignment_repo s))" by auto
  then have idx: "asg_id x = Some k0" using assms ids_ok_entry by fastforce
  have only: "k' = k0" if "(k', a) \<in> set (entries (assignment_repo s))" "truck_id a = tid" "assignment_date a = dt" for k' a
    using assms(2) that k0 x unfolding no_double_booking_def by fastforce
  show ?thesis
  proof
    assume "check_truck_availability s tid dt (Some k) = Inr ()"
    then have "k0 = k" using Some idx by (auto simp: check_truck_availability_def split: if_splits)
    then show "\<forall>(k', a) \<in> set (entries (assignment_repo s)). truck_id a = tid \<and> assignment_date a = dt \<longrightarrow> k' = k"
      using only by auto
  next
    assume "\<forall>(k', a) \<in> set (entries (assignment_repo s)). truck_id a = tid \<and> assignment_date a = dt \<longrightarrow> k' = k"
    then have "k0 = k" using k0 x by auto
    then show "check_truck_availability s tid dt (Some k) = Inr ()"
      using Some idx by (auto simp: check_truck_availability_def)
  qed
qed

subsection \<open>Every reachable state is well formed\<close>

lemma map_of_keys: "map_of al k = Some v \<Longrightarrow> k \<in> fst ` set al"
  by (auto dest: map_of_SomeD simp: rev_image_eqI)

lemma ndb_create:
  assumes ok: "ids_ok asg_id r" and ndb: "no_double_booking r"
    and d: "\<forall>(k, a) \<in> set (entries r). \<not> (driver_id a = driver_id v \<and> assignment_date a = assignment_date v)"
    and t: "\<forall>(k, a) \<in> set (entries r). \<not> (truck_id a = truck_id v \<and> assignment_date a = assignment_date v)"
  shows "no_double_booking (r\<lparr>entries := AList.update (next_id r) (v\<lparr>asg_id := i\<rparr>) (entries r), next_id := n\<rparr>)"
  using ndb d t ids_ok_fresh[OF ok]
  unfolding no_double_booking_def
  by (simp add: update_absent) fastforce

lemma ndb_update:
  assumes ok: "ids_ok asg_id r" and ndb: "no_double_booking r"
    and d: "\<forall>(k', a) \<in> set (entries r). driver_id a = driver_id v \<and> assignment_date a = assignment_date v \<longrightarrow> k' = k"
    and t: "\<forall>(k', a) \<in> set (entries r). truck_id a = truck_id v \<and> assignment_date a = assignment_date v \<longrightarrow> k' = k"
  shows "no_double_booking (r\<lparr>entries := AList.update k (v\<lparr>asg_id := i\<rparr>) (entries r)\<rparr>)"
proof -
  have dist: "distinct (map fst (entries r))" using ok by (simp add: ids_ok_def)
  show ?thesis
    using ndb d t
    unfolding no_double_booking_def
    by (simp add: set_update_distinct[OF dist]) fastforce
qed

lemma ndb_delete:
  assumes "no_double_booking r"
  shows "no_double_booking (r\<lparr>entries := AList.delete k (entries r)\<rparr>)"
  using assms unfolding no_double_booking_def
  by (simp add: set_delete) fastforce

lemma create_driver_ok: "sys_ok s \<Longrightarrow> sys_ok (fst (create_driver s d))"
  by (simp add: sys_ok_def create_driver_def DriverRepository_create_def Let_def ids_ok_create)

lemma update_driver_ok: "sys_ok s \<Longrightarrow> sys_ok (fst (update_driver s k d))"
  by (simp add: sys_ok_def update_driver_def DriverRepository_update_def Let_def ids_ok_update)

lemma delete_driver_ok: "sys_ok s \<Longrightarrow> sys_ok (fst (delete_driver s k))"
  by (simp add: sys_ok_def delete_driver_def DriverRepository_delete_def Let_def ids_ok_delete)

lemma create_truck_ok: "sys_ok s \<Longrightarrow> sys_ok (fst (create_truck s d))"
  by (simp add: sys_ok_def create_truck_def TruckRepository_create_def Let_def ids_ok_create)

lemma update_truck_ok: "sys_ok s \<Longrightarrow> sys_ok (fst (update_truck s k d))"
  by (simp add: sys_ok_def update_truck_def TruckRepository_update_def Let_def ids_ok_update)

lemma delete_truck_ok: "sys_ok s \<Longrightarrow> sys_ok (fst (delete_truck s k))"
  by (simp add: sys_ok_def delete_truck_def TruckRepository_delete_def Let_def ids_ok_delete)

lemma delete_assignment_ok: "sys_ok s \<Longrightarrow> sys_ok (fst (delete_assignment s k))"
  by (simp add: sys_ok_def delete_assignment_def AssignmentRepository_delete_def Let_def
      ids_ok_delete ndb_delete)

lemma create_assignment_ok:
  assumes "sys_ok s"
  shows "sys_ok (fst (create_assignment s a))"
proof -
  have ok: "ids_ok asg_id (assignment_repo s)" and ndb: "no_double_booking (assignment_repo s)"
    using assms by (simp_all add: sys_ok_def)
  show ?thesis
    using assms ok ndb
    by (auto simp: create_assignment_def sys_ok_def AssignmentRepository_create_def Let_def
        ids_ok_create ndb_create check_driver_create_iff[OF ok] check_truck_create_iff[OF ok]
        split: option.splits sum.splits)
qed

lemma update_assignment_ok:
  assumes "sys_ok s"
  shows "sys_ok (fst (update_assignment s k a))"
proof -
  have ok: "ids_ok asg_id (assignment_repo s)" and ndb: "no_double_booking (assignment_repo s)"
    using assms by (simp_all add: sys_ok_def)
  show ?thesis
    using assms ok ndb
    by (auto simp: update_assignment_def sys_ok_def AssignmentRepository_update_def Let_def
        AssignmentRepository_get_by_id_def map_of_keys
        ids_ok_update ndb_update check_driver_update_iff[OF ok ndb] check_truck_update_iff[OF ok ndb]
        split: option.splits sum.splits)
qed

lemma perform_ok: "sys_ok s \<Longrightarrow> sys_ok (perform s op)"
  by (cases op)
     (simp_all add: create_driver_ok update_driver_ok delete_driver_ok create_truck_ok
        update_truck_ok delete_truck_ok create_assignment_ok update_assignment_ok
        delete_assignment_ok)

lemma initial_ok: "sys_ok initial_system"
  by (simp add: sys_ok_def initial_system_def DriverRepository_init_def TruckRepository_init_def
      AssignmentRepository_init_def ids_ok_def no_double_booking_def)

lemma run_snoc: "run (ops @ [op]) = perform (run ops) op"
  by (simp add: run_def)

lemma run_ok: "sys_ok (run ops)"
  by (induction ops rule: rev_induct) (simp_all add: run_snoc perform_ok, simp add: run_def initial_ok)

subsection \<open>No double booking\<close>

lemma at_most_one:
  assumes "distinct (map fst es)"
    and "\<And>k1 a1 k2 a2. (k1, a1) \<in> set es \<Longrightarrow> (k2, a2) \<in> set es \<Longrightarrow> P a1 \<Longrightarrow> P a2 \<Longrightarrow> k1 = k2"
  shows "length (filter P (map snd es)) \<le> 1"
  using assms
proof (induction es)
  case Nil
  then show ?case by simp
next
  case (Cons p es)
  obtain k a where p: "p = (k, a)" by (cases p)
  have "distinct (map fst es)"
    using Cons.prems(1) by simp
  moreover have "k1 = k2"
    if "(k1, a1) \<in> set es" "(k2, a2) \<in> set es" "P a1" "P a2" for k1 a1 k2 a2
    using Cons.prems(2)[of k1 a1 k2 a2] that by simp
  ultimately have ih: "length (filter P (map snd es)) \<le> 1"
    by (rule Cons.IH)
  show ?case
  proof (cases "P a")
    case True
    have "\<not> P b" if "(k', b) \<in> set es" for k' b
    proof
      assume "P b"
      then have "k = k'" using Cons.prems(2)[of k a k' b] True that by (simp add: p)
      then show False using Cons.prems(1) that by (auto simp: p rev_image_eqI)
    qed
    then have "filter P (map snd es) = []"
      by (auto simp: filter_empty_conv)
    then show ?thesis by (simp add: p)
  next
    case False
    then show ?thesis using ih by (simp add: p)
  qed
qed

text \<open>
  Claim C1. In every state reached from the empty stores by a sequence of service calls
  (creations, updates and deletions of drivers, trucks and assignments, the failed calls
  included), and for every date, a driver id occurs in at most one stored assignment of
  that date, and so does a truck id.
\<close>

theorem reachable_no_double_booking:
  "length (filter (\<lambda>a. driver_id a = did \<and> assignment_date a = dt)
             (AssignmentRepository_get_all (assignment_repo (run ops)))) \<le> 1
   \<and> length (filter (\<lambda>a. truck_id a = tid \<and> assignment_date a = dt)
             (AssignmentRepository_get_all (assignment_repo (run ops)))) \<le> 1"
proof -
  have ok: "sys_ok (run ops)" by (rule run_ok)
  then have dist: "distinct (map fst (entries (assignment_repo (run ops))))"
    by (simp add: sys_ok_def ids_ok_def)
  have ndb: "no_double_booking (assignment_repo (run ops))"
    using ok by (simp add: sys_ok_def)
  have "length (filter (\<lambda>a. driver_id a = did \<and> assignment_date a = dt)
             (map snd (entries (assignment_repo (run ops))))) \<le> 1"
    by (rule at_most_one[OF dist]) (use ndb in \<open>fastforce simp: no_double_booking_def\<close>)
  moreover have "length (filter (\<lambda>a. truck_id a = tid \<and> assignment_date a = dt)
             (map snd (entries (assignment_repo (run ops))))) \<le> 1"
    by (rule at_most_one[OF dist]) (use ndb in \<open>fastforce simp: no_double_booking_def\<close>)
  ultimately show ?thesis by (simp add: AssignmentRepository_get_all_def)
qed

text \<open>
  Claim C9. In every state and for every input, a \<open>create_assignment\<close> or an
  \<open>update_assignment\<close> that raises leaves the three repositories, next ids included,
  exactly as they were.
\<close>

theorem failed_assignment_call_changes_nothing:
  "(snd (create_assignment s a) = Inl e \<longrightarrow> fst (create_assignment s a) = s) \<and>
   (snd (update_assignment s k a) = Inl e \<longrightarrow> fst (update_assignment s k a) = s)"
  by (auto simp: create_assignment_def update_assignment_def Let_def
      split: option.splits sum.splits prod.splits)

subsection \<open>The outcome of creating an assignment\<close>

lemma ids_ok_map_of:
  "ids_ok idf r \<Longrightarrow> (map_of (entries r) k = Some v) = ((k, v) \<in> set (entries r))"
  by (simp add: ids_ok_def)

lemma check_driver_create_conflict:
  assumes ok: "ids_ok asg_id (assignment_repo s)" and ndb: "no_double_booking (assignment_repo s)"
    and x: "x \<in> set (AssignmentRepository_get_all (assignment_repo s))"
      "driver_id x = did" "assignment_date x = dt"
  shows "check_driver_availability s did dt None =
         Inl (ConflictException
               [Text ''Driver '', Number did, Text '' is already assigned to truck '',
                Number (truck_id x), Text '' on '', Day dt])"
proof -
  obtain k where k: "(k, x) \<in> set (entries (assignment_repo s))"
    using x(1) by (auto simp: AssignmentRepository_get_all_def)
  have "find_by_driver_and_date (assignment_repo s) did dt \<noteq> None"
    using x by (auto simp: find_by_driver_and_date_def find_None_iff AssignmentRepository_get_all_def)
  then obtain y where y: "find_by_driver_and_date (assignment_repo s) did dt = Some y" by auto
  then have ym: "y \<in> snd ` set (entries (assignment_repo s))" "driver_id y = did" "assignment_date y = dt"
    by (auto simp: find_by_driver_and_date_def find_Some_iff)
  then obtain k' where k': "(k', y) \<in> set (entries (assignment_repo s))" by auto
  have "k' = k" using ndb k k' ym x unfolding no_double_booking_def by fastforce
  then have "y = x" using k k' ok by (metis ids_ok_map_of option.inject)
  moreover have "asg_id y = Some k'" using ok k' by (rule ids_ok_entry)
  ultimately show ?thesis using y by (simp add: check_driver_availability_def)
qed

lemma check_truck_create_conflict:
  assumes ok: "ids_ok asg_id (assignment_repo s)" and ndb: "no_double_booking (assignment_repo s)"
    and x: "x \<in> set (AssignmentRepository_get_all (assignment_repo s))"
      "truck_id x = tid" "assignment_date x = dt"
  shows "check_truck_availability s tid dt None =
         Inl (ConflictException
               [Text ''Truck '', Number tid, Text '' is already assigned to driver '',
                Number (driver_id x), Text '' on '', Day dt])"
proof -
  obtain k where k: "(k, x) \<in> set (entries (assignment_repo s))"
    using x(1) by (auto simp: AssignmentRepository_get_all_def)
  have "find_by_truck_and_date (assignment_repo s) tid dt \<noteq> None"
    using x by (auto simp: find_by_truck_and_date_def find_None_iff AssignmentRepository_get_all_def)
  then obtain y where y: "find_by_truck_and_date (assignment_repo s) tid dt = Some y" by auto
  then have ym: "y \<in> snd ` set (entries (assignment_repo s))" "truck_id y = tid" "assignment_date y = dt"
    by (auto simp: find_by_truck_and_date_def find_Some_iff)
  then obtain k' where k': "(k', y) \<in> set (entries (assignment_repo s))" by auto
  have "k' = k" using ndb k k' ym x unfolding no_double_booking_def by fastforce
  then have "y = x" using k k' ok by (metis ids_ok_map_of option.inject)
  moreover have "asg_id y = Some k'" using ok k' by (rule ids_ok_entry)
  ultimately show ?thesis using y by (simp add: check_truck_availability_def)
qed

lemma check_driver_create_free:
  assumes "ids_ok asg_id (assignment_repo s)" "\<not> driver_booked s did dt"
  shows "check_driver_availability s did dt None = Inr ()"
  using assms
  by (subst check_driver_create_iff)
     (auto simp: driver_booked_def AssignmentRepository_get_all_def rev_image_eqI)

lemma check_truck_create_free:
  assumes "ids_ok asg_id (assignment_repo s)" "\<not> truck_booked s tid dt"
  shows "check_truck_availability s tid dt None = Inr ()"
  using assms
  by (subst check_truck_create_iff)
     (auto simp: truck_booked_def AssignmentRepository_get_all_def rev_image_eqI)

lemma validate_license_compatibility_cases:
  "validate_license_compatibility h r =
     (if can_operate h r = Inr True then Inr ()
      else Inl (ValidationException
                 [Text ''Driver with license type '', Text (license_value h),
                  Text '' cannot operate a truck requiring license type '',
                  Text (license_value r),
                  Text ''. Driver needs at least a '', Text (license_value r),
                  Text '' license.'']))"
  by (simp add: validate_license_compatibility_def can_operate_by_rank)

lemma can_operate_bool: "can_operate h r = Inr True \<or> can_operate h r = Inr False"
  by (simp add: can_operate_by_rank)

lemma AssignmentRepository_create_fresh:
  assumes "ids_ok asg_id r"
  shows "AssignmentRepository_create r a =
           (\<lparr>entries = entries r @ [(next_id r, a\<lparr>asg_id := Some (next_id r)\<rparr>)],
             next_id = next_id r + 1\<rparr>,
            a\<lparr>asg_id := Some (next_id r)\<rparr>)"
  using ids_ok_fresh[OF assms]
  by (simp add: AssignmentRepository_create_def Let_def update_absent)

lemma create_assignment_no_driver:
  "DriverRepository_get_by_id (driver_repo s) (driver_id a) = None \<Longrightarrow>
   create_assignment s a = (s, Inl (ResourceNotFoundException ''Driver'' (driver_id a)))"
  by (simp add: create_assignment_def)

lemma create_assignment_no_truck:
  "DriverRepository_get_by_id (driver_repo s) (driver_id a) = Some d \<Longrightarrow>
   TruckRepository_get_by_id (truck_repo s) (truck_id a) = None \<Longrightarrow>
   create_assignment s a = (s, Inl (ResourceNotFoundException ''Truck'' (truck_id a)))"
  by (simp add: create_assignment_def)

lemma create_assignment_incompatible:
  "DriverRepository_get_by_id (driver_repo s) (driver_id a) = Some d \<Longrightarrow>
   TruckRepository_get_by_id (truck_repo s) (truck_id a) = Some t \<Longrightarrow>
   can_operate (license_type d) (minimum_license_type t) = Inr False \<Longrightarrow>
   create_assignment s a =
     (s, Inl (ValidationException
                 [Text ''Driver with license type '', Text (license_value (license_type d)),
                  Text '' cannot operate a truck requiring license type '',
                  Text (license_value (minimum_license_type t)),
                  Text ''. Driver needs at least a '',
                  Text (license_value (minimum_license_type t)),
                  Text '' license.'']))"
  by (simp add: create_assignment_def validate_license_compatibility_cases)

lemma create_assignment_driver_conflict:
  assumes "sys_ok s"
    "DriverRepository_get_by_id (driver_repo s) (driver_id a) = Some d"
    "TruckRepository_get_by_id (truck_repo s) (truck_id a) = Some t"
    "can_operate (license_type d) (minimum_license_type t) = Inr True"
    "x \<in> set (AssignmentRepository_get_all (assignment_repo s))"
    "driver_id x = driver_id a" "assignment_date x = assignment_date a"
  shows "create_assignment s a =
     (s, Inl (ConflictException
               [Text ''Driver '', Number (driver_id a), Text '' is already assigned to truck '',
                Number (truck_id x), Text '' on '', Day (assignment_date a)]))"
proof -
  have "check_driver_availability s (driver_id a) (assignment_date a) None =
        Inl (ConflictException
               [Text ''Driver '', Number (driver_id a), Text '' is already assigned to truck '',
                Number (truck_id x), Text '' on '', Day (assignment_date a)])"
    using assms by (intro check_driver_create_conflict) (simp_all add: sys_ok_def)
  then show ?thesis
    using assms(2-4) by (simp add: create_assignment_def validate_license_compatibility_cases)
qed

lemma create_assignment_truck_conflict:
  assumes "sys_ok s"
    "DriverRepository_get_by_id (driver_repo s) (driver_id a) = Some d"
    "TruckRepository_get_by_id (truck_repo s) (truck_id a) = Some t"
    "can_operate (license_type d) (minimum_license_type t) = Inr True"
    "\<not> driver_booked s (driver_id a) (assignment_date a)"
    "x \<in> set (AssignmentRepository_get_all (assignment_repo s))"
    "truck_id x = truck_id a" "assignment_date x = assignment_date a"
  shows "create_assignment s a =
     (s, Inl (ConflictException
               [Text ''Truck '', Number (truck_id a), Text '' is already assigned to driver '',
                Number (driver_id x), Text '' on '', Day (assignment_date a)]))"
proof -
  have "check_truck_availability s (truck_id a) (assignment_date a) None =
        Inl (ConflictException
               [Text ''Truck '', Number (truck_id a), Text '' is already assigned to driver '',
                Number (driver_id x), Text '' on '', Day (assignment_date a)])"
    using assms by (intro check_truck_create_conflict) (simp_all add: sys_ok_def)
  moreover have "check_driver_availability s (driver_id a) (assignment_date a) None = Inr ()"
    using assms by (intro check_driver_create_free) (simp_all add: sys_ok_def)
  ultimately show ?thesis
    using assms(2-4) by (simp add: create_assignment_def validate_license_compatibility_cases)
qed

lemma create_assignment_success:
  assumes "sys_ok s"
    "DriverRepository_get_by_id (driver_repo s) (driver_id a) = Some d"
    "TruckRepository_get_by_id (truck_repo s) (truck_id a) = Some t"
    "can_operate (license_type d) (minimum_license_type t) = Inr True"
    "\<not> driver_booked s (driver_id a) (assignment_date a)"
    "\<not> truck_booked s (truck_id a) (assignment_date a)"
  shows "create_assignment s a =
     (s\<lparr>assignment_repo :=
          \<lparr>entries = entries (assignment_repo s) @
                       [(next_id (assignment_repo s),
                         a\<lparr>asg_id := Some (next_id (assignment_repo s))\<rparr>)],
           next_id = next_id (assignment_repo s) + 1\<rparr>\<rparr>,
      Inr (a\<lparr>asg_id := Some (next_id (assignment_repo s))\<rparr>))"
proof -
  have ok: "ids_ok asg_id (assignment_repo s)" using assms(1) by (simp add: sys_ok_def)
  have "check_truck_availability s (truck_id a) (assignment_date a) None = Inr ()"
    using assms ok by (intro check_truck_create_free)
  moreover have "check_driver_availability s (driver_id a) (assignment_date a) None = Inr ()"
    using assms ok by (intro check_driver_create_free)
  ultimately show ?thesis
    using assms(2-4)
    by (simp add: create_assignment_def validate_license_compatibility_cases
        AssignmentRepository_create_fresh[OF ok])
qed

text \<open>
  Claim C2. In every reachable state and for every proposed assignment, the outcome of
  \<open>create_assignment\<close> is decided by five checks in this order: it raises the not-found
  error of the driver exactly when the driver is absent; otherwise the not-found error of
  the truck exactly when the truck is absent; otherwise a validation error exactly when
  \<open>can_operate\<close> is false; otherwise the conflict error of the driver, naming the truck of
  the stored assignment, exactly when a stored assignment has this driver and date;
  otherwise the conflict error of the truck, naming the driver of the stored assignment,
  exactly when a stored assignment has this truck and date; otherwise it returns the
  assignment with the next id, which no stored assignment has, and appends it to the store.
\<close>

theorem create_assignment_checks_in_order:
  assumes "s = run ops"
  shows
    "(snd (create_assignment s a) = Inl (ResourceNotFoundException ''Driver'' (driver_id a))
        \<longleftrightarrow> DriverRepository_get_by_id (driver_repo s) (driver_id a) = None)
     \<and> (\<forall>d. DriverRepository_get_by_id (driver_repo s) (driver_id a) = Some d \<longrightarrow>
          (snd (create_assignment s a) = Inl (ResourceNotFoundException ''Truck'' (truck_id a))
             \<longleftrightarrow> TruckRepository_get_by_id (truck_repo s) (truck_id a) = None)
        \<and> (\<forall>t. TruckRepository_get_by_id (truck_repo s) (truck_id a) = Some t \<longrightarrow>
             ((\<exists>m. snd (create_assignment s a) = Inl (ValidationException m))
                \<longleftrightarrow> can_operate (license_type d) (minimum_license_type t) = Inr False)
           \<and> (can_operate (license_type d) (minimum_license_type t) = Inr True \<longrightarrow>
                ((\<exists>tk. snd (create_assignment s a) =
                         Inl (ConflictException
                               [Text ''Driver '', Number (driver_id a),
                                Text '' is already assigned to truck '', Number tk,
                                Text '' on '', Day (assignment_date a)]))
                   \<longleftrightarrow> driver_booked s (driver_id a) (assignment_date a))
              \<and> (\<forall>x \<in> set (AssignmentRepository_get_all (assignment_repo s)).
                    driver_id x = driver_id a \<and> assignment_date x = assignment_date a \<longrightarrow>
                    snd (create_assignment s a) =
                      Inl (ConflictException
                            [Text ''Driver '', Number (driver_id a),
                             Text '' is already assigned to truck '', Number (truck_id x),
                             Text '' on '', Day (assignment_date a)]))
              \<and> (\<not> driver_booked s (driver_id a) (assignment_date a) \<longrightarrow>
                   ((\<exists>dk. snd (create_assignment s a) =
                            Inl (ConflictException
                                  [Text ''Truck '', Number (truck_id a),
                                   Text '' is already assigned to driver '', Number dk,
                                   Text '' on '', Day (assignment_date a)]))
                      \<longleftrightarrow> truck_booked s (truck_id a) (assignment_date a))
                 \<and> (\<forall>x \<in> set (AssignmentRepository_get_all (assignment_repo s)).
                       truck_id x = truck_id a \<and> assignment_date x = assignment_date a \<longrightarrow>
                       snd (create_assignment s a) =
                         Inl (ConflictException
                               [Text ''Truck '', Number (truck_id a),
                                Text '' is already assigned to driver '', Number (driver_id x),
                                Text '' on '', Day (assignment_date a)]))
                 \<and> (\<not> truck_booked s (truck_id a) (assignment_date a) \<longrightarrow>
                      next_id (assignment_repo s) \<notin> set (map fst (entries (assignment_repo s)))
                      \<and> create_assignment s a =
                          (s\<lparr>assignment_repo :=
                               \<lparr>entries = entries (assignment_repo s) @
                                   [(next_id (assignment_repo s),
                                     a\<lparr>asg_id := Some (next_id (assignment_repo s))\<rparr>)],
                                next_id = next_id (assignment_repo s) + 1\<rparr>\<rparr>,
                           Inr (a\<lparr>asg_id := Some (next_id (assignment_repo s))\<rparr>)))))))"
proof -
  have ok: "sys_ok s" using assms by (simp add: run_ok)
  have fresh: "next_id (assignment_repo s) \<notin> set (map fst (entries (assignment_repo s)))"
    using ok ids_ok_fresh[of asg_id "assignment_repo s"] by (simp add: sys_ok_def)
  show ?thesis
  proof (cases "DriverRepository_get_by_id (driver_repo s) (driver_id a)")
    case None
    then show ?thesis by (simp add: create_assignment_no_driver)
  next
    case (Some d)
    note drv = Some
    show ?thesis
    proof (cases "TruckRepository_get_by_id (truck_repo s) (truck_id a)")
      case None
      then show ?thesis using drv by (simp add: create_assignment_no_truck)
    next
      case (Some t)
      note trk = Some
      show ?thesis
      proof (cases "can_operate (license_type d) (minimum_license_type t) = Inr True")
        case False
        then have inc: "can_operate (license_type d) (minimum_license_type t) = Inr False"
          using can_operate_bool[of "license_type d" "minimum_license_type t"] by simp
        show ?thesis
          using drv trk inc by (simp add: create_assignment_incompatible)
      next
        case True
        note lic = True
        show ?thesis
        proof (cases "driver_booked s (driver_id a) (assignment_date a)")
          case True
          then obtain x where x: "x \<in> set (AssignmentRepository_get_all (assignment_repo s))"
            "driver_id x = driver_id a" "assignment_date x = assignment_date a"
            by (auto simp: driver_booked_def)
          have all: "create_assignment s a =
             (s, Inl (ConflictException
               [Text ''Driver '', Number (driver_id a), Text '' is already assigned to truck '',
                Number (truck_id y), Text '' on '', Day (assignment_date a)]))"
            if "y \<in> set (AssignmentRepository_get_all (assignment_repo s))"
              "driver_id y = driver_id a" "assignment_date y = assignment_date a" for y
            using create_assignment_driver_conflict[OF ok drv trk lic that] .
          show ?thesis
            using drv trk lic True all[OF x] all by auto
        next
          case False
          note nodrv = False
          show ?thesis
          proof (cases "truck_booked s (truck_id a) (assignment_date a)")
            case True
            then obtain x where x: "x \<in> set (AssignmentRepository_get_all (assignment_repo s))"
              "truck_id x = truck_id a" "assignment_date x = assignment_date a"
              by (auto simp: truck_booked_def)
            have all: "create_assignment s a =
               (s, Inl (ConflictException
                 [Text ''Truck '', Number (truck_id a), Text '' is already assigned to driver '',
                  Number (driver_id y), Text '' on '', Day (assignment_date a)]))"
              if "y \<in> set (AssignmentRepository_get_all (assignment_repo s))"
                "truck_id y = truck_id a" "assignment_date y = assignment_date a" for y
              using create_assignment_truck_conflict[OF ok drv trk lic nodrv that] .
            have nd: "\<not> (driver_id y = driver_id a \<and> assignment_date y = assignment_date a)"
              if "y \<in> set (AssignmentRepository_get_all (assignment_repo s))" for y
              using nodrv that by (auto simp: driver_booked_def)
            show ?thesis
              using drv trk lic nodrv True all[OF x] all nd by auto
          next
            case False
            have nd: "\<not> (driver_id y = driver_id a \<and> assignment_date y = assignment_date a)"
              if "y \<in> set (AssignmentRepository_get_all (assignment_repo s))" for y
              using nodrv that by (auto simp: driver_booked_def)
            have nt: "\<not> (truck_id y = truck_id a \<and> assignment_date y = assignment_date a)"
              if "y \<in> set (AssignmentRepository_get_all (assignment_repo s))" for y
              using False that by (auto simp: truck_booked_def)
            show ?thesis
              using drv trk lic nodrv False nd nt fresh
                create_assignment_success[OF ok drv trk lic nodrv False]
              by auto
          qed
        qed
      qed
    qed
  qed
qed

subsection \<open>Updating an assignment to itself\<close>

text \<open>
  Claim C3. In every reachable state in which the assignment with id \<open>k\<close> is stored, an
  update of \<open>k\<close> to the driver, truck and date it already has returns the updated
  assignment and raises nothing, provided the driver and the truck exist and the license
  is sufficient: the two availability checks leave the assignment \<open>k\<close> itself out.
\<close>

theorem update_to_itself_succeeds:
  assumes "s = run ops"
    and "AssignmentRepository_get_by_id (assignment_repo s) k = Some stored"
    and "driver_id a = driver_id stored" "truck_id a = truck_id stored"
      "assignment_date a = assignment_date stored"
    and "DriverRepository_get_by_id (driver_repo s) (driver_id a) = Some d"
    and "TruckRepository_get_by_id (truck_repo s) (truck_id a) = Some t"
    and "can_operate (license_type d) (minimum_license_type t) = Inr True"
  shows "update_assignment s k a =
           (s\<lparr>assignment_repo :=
                (assignment_repo s)\<lparr>entries :=
                   AList.update k (a\<lparr>asg_id := Some k\<rparr>) (entries (assignment_repo s))\<rparr>\<rparr>,
            Inr (Some (a\<lparr>asg_id := Some k\<rparr>)))"
proof -
  have sok: "sys_ok s" using assms(1) by (simp add: run_ok)
  then have ok: "ids_ok asg_id (assignment_repo s)"
    and ndb: "no_double_booking (assignment_repo s)"
    by (simp_all add: sys_ok_def)
  have mem: "(k, stored) \<in> set (entries (assignment_repo s))"
    using assms(2) ok by (simp add: AssignmentRepository_get_by_id_def ids_ok_map_of)
  have key: "k \<in> set (map fst (entries (assignment_repo s)))"
    using mem by (auto simp: rev_image_eqI)
  have "k' = k" if "(k', b) \<in> set (entries (assignment_repo s))"
    "driver_id b = driver_id a" "assignment_date b = assignment_date a" for k' b
    using ndb mem that assms(3,5) unfolding no_double_booking_def by fastforce
  then have drv: "check_driver_availability s (driver_id a) (assignment_date a) (Some k) = Inr ()"
    by (subst check_driver_update_iff[OF ok ndb]) auto
  have "k' = k" if "(k', b) \<in> set (entries (assignment_repo s))"
    "truck_id b = truck_id a" "assignment_date b = assignment_date a" for k' b
    using ndb mem that assms(4,5) unfolding no_double_booking_def by fastforce
  then have trk: "check_truck_availability s (truck_id a) (assignment_date a) (Some k) = Inr ()"
    by (subst check_truck_update_iff[OF ok ndb]) auto
  show ?thesis
    using assms(2,6,7,8) drv trk key
    by (simp add: update_assignment_def validate_license_compatibility_cases
        AssignmentRepository_update_def Let_def)
qed

subsection \<open>Ids handed out by a repository\<close>

lemma upto_step: "[n .. n + (1 + int c) - 1] = n # [n + 1 .. n + 1 + int c - 1]"
  by (subst upto_rec1) (simp_all add: algebra_simps)

lemma DriverRepository_run_ids:
  "snd (DriverRepository_run r ops) =
     map Some [next_id r .. next_id r + int (length (filter is_create ops)) - 1]"
proof (induction ops arbitrary: r)
  case Nil
  then show ?case by simp
next
  case (Cons op ops)
  show ?case
  proof (cases op)
    case (Repo_create d)
    then show ?thesis
      using Cons[of "fst (DriverRepository_create r d)"] upto_step[of "next_id r"]
      by (simp add: DriverRepository_create_def Let_def split_beta)
  next
    case (Repo_update k d)
    then show ?thesis
      using Cons[of "fst (DriverRepository_update r k d)"]
      by (simp add: DriverRepository_update_def Let_def)
  next
    case (Repo_delete k)
    then show ?thesis
      using Cons[of "fst (DriverRepository_delete r k)"]
      by (simp add: DriverRepository_delete_def)
  qed
qed

lemma TruckRepository_run_ids:
  "snd (TruckRepository_run r ops) =
     map Some [next_id r .. next_id r + int (length (filter is_create ops)) - 1]"
proof (induction ops arbitrary: r)
  case Nil
  then show ?case by simp
next
  case (Cons op ops)
  show ?case
  proof (cases op)
    case (Repo_create d)
    then show ?thesis
      using Cons[of "fst (TruckRepository_create r d)"] upto_step[of "next_id r"]
      by (simp add: TruckRepository_create_def Let_def split_beta)
  next
    case (Repo_update k d)
    then show ?thesis
      using Cons[of "fst (TruckRepository_update r k d)"]
      by (simp add: TruckRepository_update_def Let_def)
  next
    case (Repo_delete k)
    then show ?thesis
      using Cons[of "fst (TruckRepository_delete r k)"]
      by (simp add: TruckRepository_delete_def)
  qed
qed

lemma AssignmentRepository_run_ids:
  "snd (AssignmentRepository_run r ops) =
     map Some [next_id r .. next_id r + int (length (filter is_create ops)) - 1]"
proof (induction ops arbitrary: r)
  case Nil
  then show ?case by simp
next
  case (Cons op ops)
  show ?case
  proof (cases op)
    case (Repo_create d)
    then show ?thesis
      using Cons[of "fst (AssignmentRepository_create r d)"] upto_step[of "next_id r"]
      by (simp add: AssignmentRepository_create_def Let_def split_beta)
  next
    case (Repo_update k d)
    then show ?thesis
      using Cons[of "fst (AssignmentRepository_update r k d)"]
      by (simp add: AssignmentRepository_update_def Let_def)
  next
    case (Repo_delete k)
    then show ?thesis
      using Cons[of "fst (AssignmentRepository_delete r k)"]
      by (simp add: AssignmentRepository_delete_def)
  qed
qed

text \<open>
  Claim C6. In each of the three repositories, started empty, the ids that the calls of
  \<^verbatim>\<open>create\<close> return are 1, 2, 3 and so on in order, whatever updates and deletions come
  in between; in particular creating, deleting id 1 and creating again returns the ids 1
  and then 2.
\<close>

theorem ids_sequential_never_reused:
  "snd (DriverRepository_run DriverRepository_init dops) =
     map Some [1 .. int (length (filter is_create dops))]
   \<and> snd (TruckRepository_run TruckRepository_init tops) =
     map Some [1 .. int (length (filter is_create tops))]
   \<and> snd (AssignmentRepository_run AssignmentRepository_init aops) =
     map Some [1 .. int (length (filter is_create aops))]
   \<and> snd (DriverRepository_run DriverRepository_init
            [Repo_create d1, Repo_delete 1, Repo_create d2]) = [Some 1, Some 2]
   \<and> snd (TruckRepository_run TruckRepository_init
            [Repo_create t1, Repo_delete 1, Repo_create t2]) = [Some 1, Some 2]
   \<and> snd (AssignmentRepository_run AssignmentRepository_init
            [Repo_create a1, Repo_delete 1, Repo_create a2]) = [Some 1, Some 2]"
proof -
  have d: "snd (DriverRepository_run DriverRepository_init ops) =
     map Some [1 .. int (length (filter is_create ops))]" for ops
    by (simp add: DriverRepository_run_ids DriverRepository_init_def)
  have t: "snd (TruckRepository_run TruckRepository_init ops) =
     map Some [1 .. int (length (filter is_create ops))]" for ops
    by (simp add: TruckRepository_run_ids TruckRepository_init_def)
  have a: "snd (AssignmentRepository_run AssignmentRepository_init ops) =
     map Some [1 .. int (length (filter is_create ops))]" for ops
    by (simp add: AssignmentRepository_run_ids AssignmentRepository_init_def)
  have two: "[1 .. int (length (filter is_create [Repo_create x, Repo_delete 1, Repo_create y]))]
             = [1, 2]" for x y :: 'a
    by (simp add: upto_rec1)
  show ?thesis
    unfolding d t a two by simp
qed

subsection \<open>Deletion\<close>

lemma delete_absent_key: "k \<notin> set (map fst (AList.delete k al))"
  using delete_notin_dom[of k al] by simp

lemma map_of_delete_same: "map_of (AList.delete k al) k = None"
  by (simp add: delete_conv')

text \<open>
  Claim C7. In every state and for every id, if deleting the id succeeds, then in the state
  left behind fetching that id raises the not-found error, and deleting it again raises
  the not-found error and changes nothing. This holds for drivers, trucks and assignments.
\<close>

theorem deleted_id_is_not_found:
  "(snd (delete_driver s k) = Inr () \<longrightarrow>
      snd (get_driver (fst (delete_driver s k)) k) = Inl (ResourceNotFoundException ''Driver'' k)
      \<and> delete_driver (fst (delete_driver s k)) k =
          (fst (delete_driver s k), Inl (ResourceNotFoundException ''Driver'' k)))
   \<and> (snd (delete_truck s k) = Inr () \<longrightarrow>
      snd (get_truck (fst (delete_truck s k)) k) = Inl (ResourceNotFoundException ''Truck'' k)
      \<and> delete_truck (fst (delete_truck s k)) k =
          (fst (delete_truck s k), Inl (ResourceNotFoundException ''Truck'' k)))
   \<and> (snd (delete_assignment s k) = Inr () \<longrightarrow>
      snd (get_assignment (fst (delete_assignment s k)) k) =
          Inl (ResourceNotFoundException ''Assignment'' k)
      \<and> delete_assignment (fst (delete_assignment s k)) k =
          (fst (delete_assignment s k), Inl (ResourceNotFoundException ''Assignment'' k)))"
proof -
  have d: "snd (get_driver (fst (delete_driver s k)) k) = Inl (ResourceNotFoundException ''Driver'' k)
      \<and> delete_driver (fst (delete_driver s k)) k =
          (fst (delete_driver s k), Inl (ResourceNotFoundException ''Driver'' k))"
    if "snd (delete_driver s k) = Inr ()"
    using that delete_absent_key[of k "entries (driver_repo s)"]
    by (simp add: delete_driver_def get_driver_def DriverRepository_delete_def
        DriverRepository_get_by_id_def map_of_delete_same split: if_splits)
  have t: "snd (get_truck (fst (delete_truck s k)) k) = Inl (ResourceNotFoundException ''Truck'' k)
      \<and> delete_truck (fst (delete_truck s k)) k =
          (fst (delete_truck s k), Inl (ResourceNotFoundException ''Truck'' k))"
    if "snd (delete_truck s k) = Inr ()"
    using that delete_absent_key[of k "entries (truck_repo s)"]
    by (simp add: delete_truck_def get_truck_def TruckRepository_delete_def
        TruckRepository_get_by_id_def map_of_delete_same split: if_splits)
  have a: "snd (get_assignment (fst (delete_assignment s k)) k) =
          Inl (ResourceNotFoundException ''Assignment'' k)
      \<and> delete_assignment (fst (delete_assignment s k)) k =
          (fst (delete_assignment s k), Inl (ResourceNotFoundException ''Assignment'' k))"
    if "snd (delete_assignment s k) = Inr ()"
    using that delete_absent_key[of k "entries (assignment_repo s)"]
    by (simp add: delete_assignment_def get_assignment_def AssignmentRepository_delete_def
        AssignmentRepository_get_by_id_def map_of_delete_same split: if_splits)
  show ?thesis using d t a by blast
qed

lemma delete_as_filter: "AList.delete k al = filter (\<lambda>(k', v). k' \<noteq> k) al"
  by (induction al) auto

lemma filter_absent_key:
  "k \<notin> set (map fst al) \<Longrightarrow> filter (\<lambda>(k', v). k' \<noteq> k) al = al"
  by (induction al) auto

text \<open>
  Claim C8. In every state, deleting a driver leaves the truck repository and the
  assignment repository as they were, keeps the next driver id, and removes from the
  driver entries exactly those with the given id; likewise for deleting a truck. So every
  assignment that refers to the deleted driver or truck stays stored as it was.
\<close>

theorem delete_driver_or_truck_frame:
  "assignment_repo (fst (delete_driver s k)) = assignment_repo s
   \<and> truck_repo (fst (delete_driver s k)) = truck_repo s
   \<and> next_id (driver_repo (fst (delete_driver s k))) = next_id (driver_repo s)
   \<and> entries (driver_repo (fst (delete_driver s k))) =
       filter (\<lambda>(k', d). k' \<noteq> k) (entries (driver_repo s))
   \<and> assignment_repo (fst (delete_truck s k)) = assignment_repo s
   \<and> driver_repo (fst (delete_truck s k)) = driver_repo s
   \<and> next_id (truck_repo (fst (delete_truck s k))) = next_id (truck_repo s)
   \<and> entries (truck_repo (fst (delete_truck s k))) =
       filter (\<lambda>(k', t). k' \<noteq> k) (entries (truck_repo s))"
  by (simp add: delete_driver_def delete_truck_def DriverRepository_delete_def
      TruckRepository_delete_def delete_as_filter filter_absent_key)










section \<open>The claims on the sample run\<close>

lemmas eval_defs = run_def initial_system_def DriverRepository_init_def TruckRepository_init_def
  AssignmentRepository_init_def create_driver_def update_driver_def delete_driver_def
  create_truck_def update_truck_def delete_truck_def create_assignment_def update_assignment_def
  delete_assignment_def DriverRepository_create_def DriverRepository_update_def
  DriverRepository_delete_def DriverRepository_get_by_id_def TruckRepository_create_def
  TruckRepository_update_def TruckRepository_delete_def TruckRepository_get_by_id_def
  AssignmentRepository_create_def AssignmentRepository_update_def AssignmentRepository_delete_def
  AssignmentRepository_get_by_id_def AssignmentRepository_get_all_def
  find_by_driver_and_date_def find_by_truck_and_date_def check_driver_availability_def
  check_truck_availability_def validate_license_compatibility_def can_operate_def
  hierarchy_getitem_def get_license_hierarchy_def Let_def
  john_def jane_def truck_c_def truck_b_def booking_def fleet_def

lemma run_sample_calls: "run sample_calls = sample_state"
  by (simp add: eval_defs sample_calls_def sample_state_def)

lemma sample_lookups:
  "DriverRepository_get_by_id (driver_repo sample_state) 1 = Some (john\<lparr>drv_id := Some 1\<rparr>)"
  "DriverRepository_get_by_id (driver_repo sample_state) 2 = Some (jane\<lparr>drv_id := Some 2\<rparr>)"
  "TruckRepository_get_by_id (truck_repo sample_state) 1 = Some (truck_c\<lparr>trk_id := Some 1\<rparr>)"
  "TruckRepository_get_by_id (truck_repo sample_state) 2 = Some (truck_b\<lparr>trk_id := Some 2\<rparr>)"
  "AssignmentRepository_get_by_id (assignment_repo sample_state) 1 =
     Some (booking 1 1 10\<lparr>asg_id := Some 1\<rparr>)"
  "AssignmentRepository_get_by_id (assignment_repo sample_state) 2 =
     Some (booking 2 2 10\<lparr>asg_id := Some 2\<rparr>)"
  "AssignmentRepository_get_all (assignment_repo sample_state) =
     [booking 1 1 10\<lparr>asg_id := Some 1\<rparr>, booking 2 2 10\<lparr>asg_id := Some 2\<rparr>]"
  by (simp_all add: sample_state_def DriverRepository_get_by_id_def TruckRepository_get_by_id_def
      AssignmentRepository_get_by_id_def AssignmentRepository_get_all_def)

lemma booking_fields:
  "driver_id (booking did tid dd) = did" "truck_id (booking did tid dd) = tid"
  "assignment_date (booking did tid dd) = Date 2025 11 dd"
  by (simp_all add: booking_def)

lemma sample_licenses:
  "license_type (john\<lparr>drv_id := i\<rparr>) = LicenseType_D"
  "license_type (jane\<lparr>drv_id := i\<rparr>) = LicenseType_B"
  "minimum_license_type (truck_c\<lparr>trk_id := i\<rparr>) = LicenseType_C"
  "minimum_license_type (truck_b\<lparr>trk_id := i\<rparr>) = LicenseType_B"
  by (simp_all add: john_def jane_def truck_c_def truck_b_def)

text \<open>
  Claim C1 on the sample run: driver 1 has exactly one assignment on 2025-11-10.
\<close>

theorem reachable_no_double_booking_witness:
  "filter (\<lambda>a. driver_id a = 1 \<and> assignment_date a = Date 2025 11 10)
      (AssignmentRepository_get_all (assignment_repo (run sample_calls)))
     = [booking 1 1 10\<lparr>asg_id := Some 1\<rparr>]
   \<and> length (filter (\<lambda>a. driver_id a = 1 \<and> assignment_date a = Date 2025 11 10)
      (AssignmentRepository_get_all (assignment_repo (run sample_calls)))) \<le> 1
   \<and> length (filter (\<lambda>a. truck_id a = 2 \<and> assignment_date a = Date 2025 11 10)
      (AssignmentRepository_get_all (assignment_repo (run sample_calls)))) \<le> 1"
  using reachable_no_double_booking[where ops = sample_calls and did = 1 and tid = 2
      and dt = "Date 2025 11 10"]
  by (simp add: run_sample_calls sample_lookups booking_fields)

text \<open>
  Claim C2 on the sample run: a new assignment of driver 1 to truck 2 on 2025-11-10 passes
  the existence and license checks; both the driver and the truck are taken that day, and
  the error raised is the driver's conflict, naming truck 1.
\<close>

theorem create_assignment_checks_in_order_witness:
  "DriverRepository_get_by_id (driver_repo (run sample_calls)) (driver_id (booking 1 2 10))
     = Some (john\<lparr>drv_id := Some 1\<rparr>)
   \<and> TruckRepository_get_by_id (truck_repo (run sample_calls)) (truck_id (booking 1 2 10))
     = Some (truck_b\<lparr>trk_id := Some 2\<rparr>)
   \<and> can_operate LicenseType_D LicenseType_B = Inr True
   \<and> driver_booked (run sample_calls) 1 (Date 2025 11 10)
   \<and> truck_booked (run sample_calls) 2 (Date 2025 11 10)
   \<and> snd (create_assignment (run sample_calls) (booking 1 2 10)) =
       Inl (ConflictException
             [Text ''Driver '', Number 1, Text '' is already assigned to truck '', Number 1,
              Text '' on '', Day (Date 2025 11 10)])"
proof -
  let ?s = "run sample_calls" and ?a = "booking 1 2 10"
  have d: "DriverRepository_get_by_id (driver_repo ?s) (driver_id ?a) = Some (john\<lparr>drv_id := Some 1\<rparr>)"
    by (simp add: run_sample_calls sample_lookups booking_fields)
  have t: "TruckRepository_get_by_id (truck_repo ?s) (truck_id ?a) = Some (truck_b\<lparr>trk_id := Some 2\<rparr>)"
    by (simp add: run_sample_calls sample_lookups booking_fields)
  have c: "can_operate (license_type (john\<lparr>drv_id := Some 1\<rparr>))
             (minimum_license_type (truck_b\<lparr>trk_id := Some 2\<rparr>)) = Inr True"
    by (simp add: sample_licenses can_operate_by_rank)
  have x: "booking 1 1 10\<lparr>asg_id := Some 1\<rparr> \<in> set (AssignmentRepository_get_all (assignment_repo ?s))"
    "driver_id (booking 1 1 10\<lparr>asg_id := Some 1\<rparr>) = driver_id ?a"
    "assignment_date (booking 1 1 10\<lparr>asg_id := Some 1\<rparr>) = assignment_date ?a"
    by (simp_all add: run_sample_calls sample_lookups booking_fields)
  have db: "driver_booked ?s 1 (Date 2025 11 10)"
    by (simp add: driver_booked_def run_sample_calls sample_lookups booking_fields)
  have tb: "truck_booked ?s 2 (Date 2025 11 10)"
    by (simp add: truck_booked_def run_sample_calls sample_lookups booking_fields)
  have "snd (create_assignment ?s ?a) =
       Inl (ConflictException
             [Text ''Driver '', Number (driver_id ?a), Text '' is already assigned to truck '',
              Number (truck_id (booking 1 1 10\<lparr>asg_id := Some 1\<rparr>)),
              Text '' on '', Day (assignment_date ?a)])"
    using create_assignment_checks_in_order[OF refl, of sample_calls ?a] d t c x by blast
  then show ?thesis
    using d t c db tb by (simp add: booking_fields sample_licenses)
qed

text \<open>
  Claim C3 on the sample run: updating assignment 2 to its own driver, truck and date
  succeeds and leaves the state as it was.
\<close>

theorem update_to_itself_succeeds_witness:
  "AssignmentRepository_get_by_id (assignment_repo (run sample_calls)) 2 =
     Some (booking 2 2 10\<lparr>asg_id := Some 2\<rparr>)
   \<and> update_assignment (run sample_calls) 2 (booking 2 2 10) =
       (run sample_calls, Inr (Some (booking 2 2 10\<lparr>asg_id := Some 2\<rparr>)))"
proof -
  let ?s = "run sample_calls" and ?a = "booking 2 2 10"
  have st: "AssignmentRepository_get_by_id (assignment_repo ?s) 2 = Some (?a\<lparr>asg_id := Some 2\<rparr>)"
    by (simp add: run_sample_calls sample_lookups)
  have d: "DriverRepository_get_by_id (driver_repo ?s) (driver_id ?a) = Some (jane\<lparr>drv_id := Some 2\<rparr>)"
    by (simp add: run_sample_calls sample_lookups booking_fields)
  have t: "TruckRepository_get_by_id (truck_repo ?s) (truck_id ?a) = Some (truck_b\<lparr>trk_id := Some 2\<rparr>)"
    by (simp add: run_sample_calls sample_lookups booking_fields)
  have c: "can_operate (license_type (jane\<lparr>drv_id := Some 2\<rparr>))
             (minimum_license_type (truck_b\<lparr>trk_id := Some 2\<rparr>)) = Inr True"
    by (simp add: sample_licenses can_operate_by_rank)
  have "update_assignment ?s 2 ?a =
           (?s\<lparr>assignment_repo :=
                (assignment_repo ?s)\<lparr>entries :=
                   AList.update 2 (?a\<lparr>asg_id := Some 2\<rparr>) (entries (assignment_repo ?s))\<rparr>\<rparr>,
            Inr (Some (?a\<lparr>asg_id := Some 2\<rparr>)))"
    by (rule update_to_itself_succeeds[OF refl st _ _ _ d t c]) simp_all
  moreover have "?s\<lparr>assignment_repo :=
                (assignment_repo ?s)\<lparr>entries :=
                   AList.update 2 (?a\<lparr>asg_id := Some 2\<rparr>) (entries (assignment_repo ?s))\<rparr>\<rparr> = ?s"
    by (simp add: run_sample_calls sample_state_def)
  ultimately show ?thesis using st by simp
qed

text \<open>
  Claim C9 on the sample run: driver 2 holds license B and truck 1 requires C, so creating
  or updating to that pair raises a validation error, and the state stays as it was.
\<close>

theorem failed_assignment_call_changes_nothing_witness:
  "snd (create_assignment (run sample_calls) (booking 2 1 11)) =
     Inl (ValidationException
           [Text ''Driver with license type '', Text ''B'',
            Text '' cannot operate a truck requiring license type '', Text ''C'',
            Text ''. Driver needs at least a '', Text ''C'', Text '' license.''])
   \<and> fst (create_assignment (run sample_calls) (booking 2 1 11)) = run sample_calls
   \<and> snd (update_assignment (run sample_calls) 1 (booking 2 1 10)) =
     Inl (ValidationException
           [Text ''Driver with license type '', Text ''B'',
            Text '' cannot operate a truck requiring license type '', Text ''C'',
            Text ''. Driver needs at least a '', Text ''C'', Text '' license.''])
   \<and> fst (update_assignment (run sample_calls) 1 (booking 2 1 10)) = run sample_calls"
proof -
  let ?e = "ValidationException
           [Text ''Driver with license type '', Text ''B'',
            Text '' cannot operate a truck requiring license type '', Text ''C'',
            Text ''. Driver needs at least a '', Text ''C'', Text '' license.'']"
  have c: "snd (create_assignment (run sample_calls) (booking 2 1 11)) = Inl ?e"
    by (simp add: run_sample_calls create_assignment_def sample_lookups booking_fields
        sample_licenses validate_license_compatibility_cases can_operate_by_rank)
  have u: "snd (update_assignment (run sample_calls) 1 (booking 2 1 10)) = Inl ?e"
    by (simp add: run_sample_calls update_assignment_def sample_lookups booking_fields
        sample_licenses validate_license_compatibility_cases can_operate_by_rank)
  from failed_assignment_call_changes_nothing
         [where s = "run sample_calls" and a = "booking 2 1 11" and e = ?e] c
  have "fst (create_assignment (run sample_calls) (booking 2 1 11)) = run sample_calls"
    by blast
  moreover
  from failed_assignment_call_changes_nothing
         [where s = "run sample_calls" and a = "booking 2 1 10" and e = ?e and k = 1] u
  have "fst (update_assignment (run sample_calls) 1 (booking 2 1 10)) = run sample_calls"
    by blast
  ultimately show ?thesis using c u by simp
qed

text \<open>
  Claim C7 on the sample run: driver 1, truck 1 and assignment 1 are deleted once; the
  fetch and the second deletion raise the not-found error.
\<close>

theorem deleted_id_is_not_found_witness:
  "snd (delete_driver (run sample_calls) 1) = Inr ()
   \<and> snd (get_driver (fst (delete_driver (run sample_calls) 1)) 1) =
       Inl (ResourceNotFoundException ''Driver'' 1)
   \<and> snd (delete_driver (fst (delete_driver (run sample_calls) 1)) 1) =
       Inl (ResourceNotFoundException ''Driver'' 1)
   \<and> snd (delete_truck (run sample_calls) 1) = Inr ()
   \<and> snd (get_truck (fst (delete_truck (run sample_calls) 1)) 1) =
       Inl (ResourceNotFoundException ''Truck'' 1)
   \<and> snd (delete_truck (fst (delete_truck (run sample_calls) 1)) 1) =
       Inl (ResourceNotFoundException ''Truck'' 1)
   \<and> snd (delete_assignment (run sample_calls) 1) = Inr ()
   \<and> snd (get_assignment (fst (delete_assignment (run sample_calls) 1)) 1) =
       Inl (ResourceNotFoundException ''Assignment'' 1)
   \<and> snd (delete_assignment (fst (delete_assignment (run sample_calls) 1)) 1) =
       Inl (ResourceNotFoundException ''Assignment'' 1)"
proof -
  have d: "snd (delete_driver (run sample_calls) 1) = Inr ()"
    by (simp add: run_sample_calls sample_state_def delete_driver_def DriverRepository_delete_def)
  have t: "snd (delete_truck (run sample_calls) 1) = Inr ()"
    by (simp add: run_sample_calls sample_state_def delete_truck_def TruckRepository_delete_def)
  have a: "snd (delete_assignment (run sample_calls) 1) = Inr ()"
    by (simp add: run_sample_calls sample_state_def delete_assignment_def
        AssignmentRepository_delete_def)
  show ?thesis
    using deleted_id_is_not_found[where s = "run sample_calls" and k = 1] d t a
    by simp
qed

text \<open>
  Claim C8 on the sample run: after driver 1 is deleted, assignment 1 is still stored and
  still refers to driver 1, and only driver 2 is left among the drivers.
\<close>

theorem delete_driver_or_truck_frame_witness:
  "snd (get_driver (fst (delete_driver (run sample_calls) 1)) 1) =
       Inl (ResourceNotFoundException ''Driver'' 1)
   \<and> snd (get_assignment (fst (delete_driver (run sample_calls) 1)) 1) =
       Inr (booking 1 1 10\<lparr>asg_id := Some 1\<rparr>)
   \<and> entries (driver_repo (fst (delete_driver (run sample_calls) 1))) =
       [(2, jane\<lparr>drv_id := Some 2\<rparr>)]"
proof -
  have keep: "assignment_repo (fst (delete_driver (run sample_calls) 1)) =
              assignment_repo (run sample_calls)"
    and left: "entries (driver_repo (fst (delete_driver (run sample_calls) 1))) =
       filter (\<lambda>(k', d). k' \<noteq> 1) (entries (driver_repo (run sample_calls)))"
    using delete_driver_or_truck_frame[where s = "run sample_calls" and k = 1] by simp_all
  have "snd (get_assignment (fst (delete_driver (run sample_calls) 1)) 1) =
       Inr (booking 1 1 10\<lparr>asg_id := Some 1\<rparr>)"
    unfolding get_assignment_def keep by (simp add: run_sample_calls sample_lookups)
  moreover have "entries (driver_repo (fst (delete_driver (run sample_calls) 1))) =
       [(2, jane\<lparr>drv_id := Some 2\<rparr>)]"
    unfolding left by (simp add: run_sample_calls sample_state_def)
  moreover have "snd (get_driver (fst (delete_driver (run sample_calls) 1)) 1) =
       Inl (ResourceNotFoundException ''Driver'' 1)"
    unfolding get_driver_def DriverRepository_get_by_id_def left
    by (simp add: run_sample_calls sample_state_def)
  ultimately show ?thesis by simp
qed


end
